theory Spec2Isabelle
  imports Complex_Main
begin

section \<open>Heat diffusion around a sinking slab: the script \<open>diffusion.py\<close>\<close>

text \<open>
  The script keeps two NumPy arrays of shape \<open>(nx, ny)\<close>, \<open>u0\<close> (the previous state) and
  \<open>u\<close> (the buffer the next state is written to), and runs a loop of \<open>nsteps\<close> iterations.
  Each iteration moves the slab (two slice assignments on \<open>u0\<close>) and then calls
  \<open>diffuser(u0, u)\<close>, which writes the interior of \<open>u\<close> from \<open>u0\<close>, pins boundary cells of \<open>u\<close>
  to the mantle temperature and rebinds \<open>u0\<close> to a copy of \<open>u\<close>.

  Conventions of the model.
  \<^item> A cell value is a \<open>real\<close>: the arithmetic of the script is read as exact arithmetic, the
    rounding of 64-bit floats is not modelled.
  \<^item> An array is a function from (first index, second index) to its cell. The first index
    is called the row, the second the column. Only indices below the shape \<open>(nx, ny)\<close> are
    cells of the array; every operation below leaves the function alone outside the shape.
  \<^item> Array objects live in a store, addressed by numbers, because the script mutates
    \<open>u0\<close> and \<open>u\<close> in place and copies them; the names \<open>u0\<close> and \<open>u\<close> hold addresses.
  \<^item> \<open>np.empty\<close> returns an array whose cells are whatever the memory held. Its contents are
    a parameter of the model, written \<open>J\<close> below.
\<close>

subsection \<open>Parameters (lines 33-56 and 87-90)\<close>

definition w :: real where "w = 100"
definition h :: real where "h = 100"

definition dx :: real where "dx = 1"
definition dy :: real where "dy = 1"

definition K :: real where "K = 87000000"

definition Tslab :: real where "Tslab = 0"
definition Tmantle :: real where "Tmantle = 1300"

text \<open>\<open>int(w/dx)\<close> truncates towards zero; the quotient is not negative, so this is the floor.\<close>

definition nx :: nat where "nx = nat \<lfloor>w / dx\<rfloor>"
definition ny :: nat where "ny = nat \<lfloor>h / dy\<rfloor>"

definition dx2 :: real where "dx2 = dx * dx"
definition dy2 :: real where "dy2 = dy * dy"
definition dt :: real where "dt = dx2 * dy2 / (2 * K * (dx2 + dy2))"

definition nsteps :: nat where "nsteps = 100"
definition mfig :: "nat list" where "mfig = [0, 10, 50, 99]"

subsection \<open>Arrays and the slice assignments of the script\<close>

type_synonym grid = "nat \<Rightarrow> nat \<Rightarrow> real"

text \<open>\<open>np.ones((nx, ny))\<close>, and the product of a scalar with an array.\<close>

definition ones :: grid where "ones = (\<lambda>r c. 1)"

definition scale :: "real \<Rightarrow> grid \<Rightarrow> grid" where
  "scale a g = (\<lambda>r c. a * g r c)"

text \<open>\<open>g[1, 25:75] = Tslab\<close> (lines 63 and 100): row 1, columns 25 to 74.\<close>

definition place_slab :: "grid \<Rightarrow> grid" where
  "place_slab g = (\<lambda>r c. if r = 1 \<and> 25 \<le> c \<and> c < 75 then Tslab else g r c)"

text \<open>
  \<open>g[2:m+1, 25:75] = g[1:m, 25:75]\<close> (line 99). Source and target are views of the same
  array and overlap; NumPy assigns as if the right-hand side had been copied first, so every
  target row \<open>r\<close> receives the old row \<open>r - 1\<close>. For \<open>m < 2\<close> both slices are empty. For
  \<open>m < nx\<close> neither slice is clipped and the shapes agree (lemma \<open>slices_in_range\<close>).
\<close>

definition sink :: "nat \<Rightarrow> grid \<Rightarrow> grid" where
  "sink m g = (\<lambda>r c. if 2 \<le> r \<and> r < m + 1 \<and> 25 \<le> c \<and> c < 75 then g (r - 1) c else g r c)"

text \<open>The two statements that move the slab at step \<open>m\<close> (lines 99-100), on the contents of \<open>u0\<close>.\<close>

definition advect :: "nat \<Rightarrow> grid \<Rightarrow> grid" where
  "advect m g = place_slab (sink m g)"

text \<open>
  Lines 69-71: \<open>u[1:-1, 1:-1] = u0[1:-1, 1:-1] + K * dt * (...)\<close>. The right-hand side is a new
  array computed from \<open>u0\<close> (here \<open>p\<close>); it is stored into the interior of \<open>u\<close> (here \<open>b\<close>),
  whose other cells keep their contents.
\<close>

definition stencil :: "grid \<Rightarrow> grid \<Rightarrow> grid" where
  "stencil p b = (\<lambda>i j.
     if 1 \<le> i \<and> i < nx - 1 \<and> 1 \<le> j \<and> j < ny - 1
     then p i j + K * dt * ((p (i + 1) j - 2 * p i j + p (i - 1) j) / dx2
                          + (p i (j + 1) - 2 * p i j + p i (j - 1)) / dy2)
     else b i j)"

text \<open>\<open>g[r, c] = v\<close>.\<close>

definition put :: "nat \<Rightarrow> nat \<Rightarrow> real \<Rightarrow> grid \<Rightarrow> grid" where
  "put r c v g = g(r := (g r)(c := v))"

text \<open>
  The body of the boundary loops (lines 76-81) for one pair \<open>(i, j)\<close>: three \<open>if\<close>
  statements in sequence, each writing \<open>u[j, i]\<close>.
\<close>

definition bc_cell :: "nat \<Rightarrow> nat \<Rightarrow> grid \<Rightarrow> grid" where
  "bc_cell i j g =
     (let g1 = (if i = 0 \<or> i = nx - 1 then put j i Tmantle g else g);
          g2 = (if j = ny - 1 then put j i Tmantle g1 else g1);
          g3 = (if (j = 0 \<and> i < 25) \<or> (j = 0 \<and> i > 75) then put j i Tmantle g2 else g2)
      in g3)"

text \<open>Lines 74-81: \<open>for i in range(nx): for j in range(ny): ...\<close>.\<close>

definition boundary :: "grid \<Rightarrow> grid" where
  "boundary g = fold (\<lambda>i. fold (\<lambda>j. bc_cell i j) [0..<ny]) [0..<nx] g"

subsection \<open>The store, and the program\<close>

text \<open>
  \<open>heap\<close> maps the address of an array object to its contents, \<open>nxt\<close> is the next unused
  address. \<open>u0\<close> and \<open>u\<close> are the two module-level names. \<open>figs\<close> lists, for each picture
  drawn, the step index and the address of the array handed to \<open>imshow\<close>.
\<close>

record sim =
  heap :: "nat \<Rightarrow> grid"
  nxt :: nat
  u0 :: nat
  u :: nat
  figs :: "(nat \<times> nat) list"

text \<open>Mutation of the array object at address \<open>a\<close>.\<close>

definition modify :: "nat \<Rightarrow> (grid \<Rightarrow> grid) \<Rightarrow> sim \<Rightarrow> sim" where
  "modify a f s = s\<lparr>heap := (heap s)(a := f (heap s a))\<rparr>"

text \<open>\<open>a.copy()\<close>: a new array object with the contents of the one at \<open>a\<close>.\<close>

definition np_copy :: "nat \<Rightarrow> sim \<Rightarrow> nat \<times> sim" where
  "np_copy a s = (nxt s, s\<lparr>heap := (heap s)(nxt s := heap s a), nxt := Suc (nxt s)\<rparr>)"

text \<open>
  Lines 59-63. \<open>u0\<close> is the slab placed on \<open>Tmantle * np.ones((nx, ny))\<close>; \<open>u\<close> is
  \<open>np.empty((nx, ny))\<close>, with contents \<open>J\<close>.
\<close>

definition u0_initial :: grid where
  "u0_initial = place_slab (scale Tmantle ones)"

definition initial :: "grid \<Rightarrow> sim" where
  "initial J = \<lparr>heap = (\<lambda>a. if a = 0 then u0_initial else J), nxt = 2, u0 = 0, u = 1, figs = []\<rparr>"

text \<open>
  \<open>diffuser(u0, u)\<close> (lines 66-84), called with the addresses \<open>a0\<close> and \<open>a\<close>. It mutates the
  array at \<open>a\<close> twice, copies it, and returns the pair (address of the copy, \<open>a\<close>).
\<close>

definition diffuser :: "nat \<Rightarrow> nat \<Rightarrow> sim \<Rightarrow> (nat \<times> nat) \<times> sim" where
  "diffuser a0 a s =
     (let s1 = modify a (stencil (heap s a0)) s;
          s2 = modify a boundary s1;
          (c, s3) = np_copy a s2
      in ((c, a), s3))"

text \<open>\<open>u.copy()\<close> as handed to the renderer (line 109).\<close>

definition snapshot :: "sim \<Rightarrow> nat \<times> sim" where
  "snapshot s = np_copy (u s) s"

text \<open>The body of the time loop (lines 99-112) for the loop index \<open>m\<close>.\<close>

definition step :: "nat \<Rightarrow> sim \<Rightarrow> sim" where
  "step m s =
     (let s1 = modify (u0 s) (sink m) s;
          s2 = modify (u0 s1) place_slab s1;
          ((c, a), s3) = diffuser (u0 s2) (u s2) s2;
          s4 = s3\<lparr>u0 := c, u := a\<rparr>
      in if m \<in> set mfig
         then (let (p, s5) = snapshot s4 in s5\<lparr>figs := figs s5 @ [(m, p)]\<rparr>)
         else s4)"

text \<open>The first \<open>n\<close> iterations of \<open>for m in range(nsteps)\<close>, and the whole loop.\<close>

definition steps :: "nat \<Rightarrow> grid \<Rightarrow> sim" where
  "steps n J = fold step [0..<n] (initial J)"

definition program :: "grid \<Rightarrow> sim" where
  "program J = steps nsteps J"

subsection \<open>Observations used in the statements\<close>

text \<open>The contents of \<open>u0\<close> and of \<open>u\<close> after \<open>n\<close> iterations.\<close>

definition grid_after :: "nat \<Rightarrow> grid \<Rightarrow> grid" where
  "grid_after n J = heap (steps n J) (u0 (steps n J))"

definition buffer_after :: "nat \<Rightarrow> grid \<Rightarrow> grid" where
  "buffer_after n J = heap (steps n J) (u (steps n J))"

text \<open>The addresses in use are below \<open>nxt\<close>, and \<open>u0\<close> and \<open>u\<close> name different objects.\<close>

definition sim_ok :: "sim \<Rightarrow> bool" where
  "sim_ok s \<longleftrightarrow> u0 s < nxt s \<and> u s < nxt s \<and> u0 s \<noteq> u s"

text \<open>The cells that the boundary loops of \<open>diffuser\<close> write (row \<open>r\<close>, column \<open>c\<close>).\<close>

definition pinned :: "nat \<Rightarrow> nat \<Rightarrow> bool" where
  "pinned r c \<longleftrightarrow>
     r < ny \<and> c < nx \<and> (c = 0 \<or> c = nx - 1 \<or> r = ny - 1 \<or> (r = 0 \<and> (c < 25 \<or> c > 75)))"

text \<open>Every cell of the array lies between the slab and the mantle temperature.\<close>

definition in_range :: "grid \<Rightarrow> bool" where
  "in_range g \<longleftrightarrow> (\<forall>r \<in> set [0..<nx]. \<forall>c \<in> set [0..<ny]. Tslab \<le> g r c \<and> g r c \<le> Tmantle)"

text \<open>
  The cells of the buffer that \<open>diffuser\<close> never writes (row 0, columns 25 to 75) happen to
  hold values between the slab and the mantle temperature.
\<close>

definition stale_in_range :: "grid \<Rightarrow> bool" where
  "stale_in_range J \<longleftrightarrow> (\<forall>c \<in> set [25..<76]. Tslab \<le> J 0 c \<and> J 0 c \<le> Tmantle)"

text \<open>Row \<open>r\<close> is at the slab temperature on the slab's columns; the number of such rows.\<close>

definition row_at_Tslab :: "grid \<Rightarrow> nat \<Rightarrow> bool" where
  "row_at_Tslab g r \<longleftrightarrow> (\<forall>c \<in> set [25..<75]. g r c = Tslab)"

definition rows_at_Tslab :: "grid \<Rightarrow> nat" where
  "rows_at_Tslab g = length (filter (row_at_Tslab g) [0..<nx])"





section \<open>Basic facts\<close>

lemma nx_eq: "nx = 100"
  by (simp add: nx_def w_def dx_def)

lemma ny_eq: "ny = 100"
  by (simp add: ny_def h_def dy_def)

lemma Kdt: "K * dt = 1 / 4"
  by (simp add: K_def dt_def dx2_def dy2_def dx_def dy_def)

lemma dx2_eq: "dx2 = 1"
  by (simp add: dx2_def dx_def)

lemma dy2_eq: "dy2 = 1"
  by (simp add: dy2_def dy_def)

text \<open>
  The index expressions of the script stay inside the arrays: the column slice \<open>25:75\<close> and
  the row slices \<open>2:m+1\<close>, \<open>1:m\<close> are not clipped for any loop index, and the boundary loops,
  which use \<open>i < nx\<close> as a column and \<open>j < ny\<close> as a row, need \<open>nx = ny\<close>.
\<close>

lemma dx2_power: "dx2 = dx\<^sup>2" and dy2_power: "dy2 = dy\<^sup>2"
  by (simp_all add: dx2_def dy2_def power2_eq_square)

lemma slices_in_range: "75 \<le> ny \<and> nx = ny \<and> (\<forall>m \<in> set [0..<nsteps]. m + 1 \<le> nx)"
  by (simp add: nx_eq ny_eq nsteps_def)

subsection \<open>The boundary loops, cell by cell\<close>

lemma put_apply: "put r c v g r' c' = (if r' = r \<and> c' = c then v else g r' c')"
  by (simp add: put_def)

lemma three_puts:
  "(let g1 = (if A then put j i v g else g);
        g2 = (if B then put j i v g1 else g1);
        g3 = (if C then put j i v g2 else g2)
    in g3) r c = (if (r = j \<and> c = i) \<and> (A \<or> B \<or> C) then v else g r c)"
  by (cases A; cases B; cases C; simp add: put_apply)

lemma bc_cell_apply:
  "bc_cell i j g r c =
     (if (r = j \<and> c = i) \<and>
         ((i = 0 \<or> i = nx - 1) \<or> j = ny - 1 \<or> ((j = 0 \<and> i < 25) \<or> (j = 0 \<and> i > 75)))
      then Tmantle else g r c)"
  unfolding bc_cell_def by (rule three_puts)

lemma fold_pointwise:
  assumes "\<And>x g. f x g r c = (if P x then v else g r c)"
  shows "fold f xs g r c = (if \<exists>x \<in> set xs. P x then v else g r c)"
  by (induction xs arbitrary: g) (simp_all add: assms)

lemma fold_rows:
  "fold (bc_cell i) js g r c =
     (if \<exists>j \<in> set js. (r = j \<and> c = i) \<and>
         ((i = 0 \<or> i = nx - 1) \<or> j = ny - 1 \<or> ((j = 0 \<and> i < 25) \<or> (j = 0 \<and> i > 75)))
      then Tmantle else g r c)"
  by (rule fold_pointwise) (rule bc_cell_apply)

lemma fold_cols:
  "fold (\<lambda>i. fold (bc_cell i) js) is g r c =
     (if \<exists>i \<in> set is. \<exists>j \<in> set js. (r = j \<and> c = i) \<and>
         ((i = 0 \<or> i = nx - 1) \<or> j = ny - 1 \<or> ((j = 0 \<and> i < 25) \<or> (j = 0 \<and> i > 75)))
      then Tmantle else g r c)"
  by (rule fold_pointwise) (rule fold_rows)

lemma pinned_iff:
  "(\<exists>i \<in> set [0..<nx]. \<exists>j \<in> set [0..<ny]. (r = j \<and> c = i) \<and>
         ((i = 0 \<or> i = nx - 1) \<or> j = ny - 1 \<or> ((j = 0 \<and> i < 25) \<or> (j = 0 \<and> i > 75))))
   \<longleftrightarrow> pinned r c"
  unfolding pinned_def Bex_def set_upt atLeastLessThan_iff by (simp only: le0 simp_thms) blast

lemma boundary_apply: "boundary g r c = (if pinned r c then Tmantle else g r c)"
  unfolding boundary_def fold_cols pinned_iff ..


lemma step_u: "u (step m s) = u s"
  by (simp add: step_def Let_def diffuser_def modify_def np_copy_def snapshot_def split: prod.splits)

lemma step_ok: "sim_ok s \<Longrightarrow> sim_ok (step m s)"
  by (simp add: step_def Let_def diffuser_def modify_def np_copy_def snapshot_def sim_ok_def split: prod.splits)

lemma step_heap_u0:
  "sim_ok s \<Longrightarrow> heap (step m s) (u0 (step m s)) = boundary (stencil (advect m (heap s (u0 s))) (heap s (u s)))"
  by (simp add: step_def Let_def diffuser_def modify_def np_copy_def snapshot_def sim_ok_def advect_def split: prod.splits)

lemma step_heap_u:
  "sim_ok s \<Longrightarrow> heap (step m s) (u (step m s)) = boundary (stencil (advect m (heap s (u0 s))) (heap s (u s)))"
  by (simp add: step_def Let_def diffuser_def modify_def np_copy_def snapshot_def sim_ok_def advect_def split: prod.splits)

subsection \<open>The loop, iteration by iteration\<close>

lemma steps_0: "steps 0 J = initial J"
  by (simp add: steps_def)

lemma steps_Suc: "steps (Suc n) J = step n (steps n J)"
  by (simp add: steps_def)

lemma initial_ok: "sim_ok (initial J)"
  by (simp add: sim_ok_def initial_def)

lemma steps_ok: "sim_ok (steps n J)"
  by (induction n) (simp_all add: steps_0 steps_Suc initial_ok step_ok)

lemma steps_u: "u (steps n J) = 1"
  by (induction n) (simp_all add: steps_0 steps_Suc step_u initial_def)

lemma grid_after_0: "grid_after 0 J = u0_initial"
  by (simp add: grid_after_def steps_0 initial_def)

lemma buffer_after_0: "buffer_after 0 J = J"
  by (simp add: buffer_after_def steps_0 initial_def)

lemma grid_after_Suc:
  "grid_after (Suc n) J = boundary (stencil (advect n (grid_after n J)) (buffer_after n J))"
  by (simp add: grid_after_def buffer_after_def steps_Suc step_heap_u0 steps_ok)

lemma buffer_after_Suc:
  "buffer_after (Suc n) J = boundary (stencil (advect n (grid_after n J)) (buffer_after n J))"
  by (simp add: grid_after_def buffer_after_def steps_Suc step_heap_u steps_ok)

lemma buffer_is_grid: "buffer_after (Suc n) J = grid_after (Suc n) J"
  by (simp add: grid_after_Suc buffer_after_Suc)

section \<open>The interior update of \<open>diffuser\<close>\<close>

lemma not_pinned_interior: "1 \<le> r \<Longrightarrow> r \<le> nx - 2 \<Longrightarrow> 1 \<le> c \<Longrightarrow> c \<le> ny - 2 \<Longrightarrow> \<not> pinned r c"
  by (simp add: pinned_def nx_eq ny_eq)

lemma stencil_interior:
  "1 \<le> i \<Longrightarrow> i \<le> nx - 2 \<Longrightarrow> 1 \<le> j \<Longrightarrow> j \<le> ny - 2 \<Longrightarrow>
   stencil p b i j = p i j + K * dt * ((p (i + 1) j - 2 * p i j + p (i - 1) j) / dx\<^sup>2
                                     + (p i (j + 1) - 2 * p i j + p i (j - 1)) / dy\<^sup>2)"
  by (simp add: stencil_def nx_eq ny_eq dx2_power dy2_power)

lemma diffuser_heap:
  "diffuser a0 a s = ((c, a'), s') \<Longrightarrow>
   a' = a \<and> c = nxt s \<and> heap s' a = boundary (stencil (heap s a0) (heap s a))
   \<and> heap s' c = boundary (stencil (heap s a0) (heap s a))"
  by (auto simp: diffuser_def Let_def modify_def np_copy_def)

text \<open>
  Claim C1. For every interior cell \<open>(i, j)\<close>, \<open>1 \<le> i \<le> nx - 2\<close> and \<open>1 \<le> j \<le> ny - 2\<close>, a call
  of \<open>diffuser\<close> computes
  \<open>prev[i,j] + K*dt*((prev[i+1,j] - 2*prev[i,j] + prev[i-1,j])/dx\<^sup>2 + (prev[i,j+1] - 2*prev[i,j] + prev[i,j-1])/dy\<^sup>2)\<close>,
  where \<open>prev\<close> is the array passed as \<open>u0\<close>. The value is there after the slice assignment,
  whatever the buffer \<open>b\<close> held, hence before the boundary loops run; it is still there, in the
  array passed as \<open>u\<close> and in the copy returned, when \<open>diffuser\<close> returns. The cell values are
  exact reals here.
\<close>

theorem diffuser_interior_update:
  assumes "1 \<le> i" and "i \<le> nx - 2" and "1 \<le> j" and "j \<le> ny - 2"
    and "diffuser a0 a s = ((c, a'), s')" and "prev = heap s a0"
  shows "let v = prev i j + K * dt * ((prev (i + 1) j - 2 * prev i j + prev (i - 1) j) / dx\<^sup>2
                                    + (prev i (j + 1) - 2 * prev i j + prev i (j - 1)) / dy\<^sup>2)
         in stencil prev b i j = v \<and> heap s' a' i j = v \<and> heap s' c i j = v"
proof -
  note st = stencil_interior [OF assms(1-4)]
  note np = not_pinned_interior [OF assms(1-4)]
  from diffuser_heap [OF assms(5)]
  have "heap s' a' = boundary (stencil prev (heap s a))" and "heap s' c = boundary (stencil prev (heap s a))"
    by (auto simp: assms(6))
  then show ?thesis
    by (simp add: Let_def boundary_apply np st)
qed

lemma u0_initial_apply:
  "u0_initial r c = (if r = 1 \<and> 25 \<le> c \<and> c < 75 then Tslab else Tmantle)"
  by (simp add: u0_initial_def place_slab_def scale_def ones_def)

theorem diffuser_interior_update_witness:
  "(1::nat) \<le> 1 \<and> (1::nat) \<le> nx - 2 \<and> (1::nat) \<le> 30 \<and> (30::nat) \<le> ny - 2
   \<and> heap (snd (diffuser 0 1 (initial (\<lambda>r c. 0)))) 1 1 30 = 650"
proof -
  have d: "diffuser 0 1 (initial (\<lambda>r c. 0)) = ((2, 1), snd (diffuser 0 1 (initial (\<lambda>r c. 0))))"
    by (simp add: diffuser_def Let_def modify_def np_copy_def initial_def)
  have i: "(1::nat) \<le> 1" "(1::nat) \<le> nx - 2" "(1::nat) \<le> 30" "(30::nat) \<le> ny - 2"
    by (simp_all add: nx_eq ny_eq)
  have p: "u0_initial = heap (initial (\<lambda>r c. 0)) 0"
    by (simp add: initial_def)
  from diffuser_interior_update [OF i d p, of "\<lambda>r c. 0"] i show ?thesis
    by (simp add: Let_def u0_initial_apply Kdt dx_def dy_def Tslab_def Tmantle_def)
qed

section \<open>Moving the slab\<close>

text \<open>
  Claim C2. At every loop index \<open>m\<close>, the two statements that move the slab give each row
  \<open>r\<close>, \<open>2 \<le> r \<le> m\<close>, on the columns 25 to 74 the values row \<open>r - 1\<close> held before (all rows
  at once), then set row 1 on those columns to \<open>Tslab\<close>, and change no cell outside the rows
  \<open>1..m\<close> of the columns 25 to 74. The array \<open>g\<close> is any array when \<open>m \<ge> 1\<close>; at \<open>m = 0\<close> it
  is the initial array, which is what \<open>u0\<close> holds when the loop starts (there the write to
  row 1 stores the value the row has already).
\<close>

theorem advect_shift:
  assumes "m < nsteps" and "m = 0 \<longrightarrow> g = u0_initial"
  shows "(\<forall>r c. 2 \<le> r \<and> r \<le> m \<and> 25 \<le> c \<and> c \<le> 74 \<longrightarrow> advect m g r c = g (r - 1) c)
       \<and> (\<forall>c. 25 \<le> c \<and> c \<le> 74 \<longrightarrow> advect m g 1 c = Tslab)
       \<and> (\<forall>r c. \<not> (1 \<le> r \<and> r \<le> m \<and> 25 \<le> c \<and> c \<le> 74) \<longrightarrow> advect m g r c = g r c)"
proof (cases "m = 0")
  case True
  with assms(2) have g: "g = u0_initial" by simp
  show ?thesis
    unfolding g True by (auto simp: advect_def place_slab_def sink_def u0_initial_apply)
next
  case False
  then show ?thesis
    by (auto simp: advect_def place_slab_def sink_def)
qed

theorem advect_shift_witness:
  "(3::nat) < nsteps \<and> (3::nat) \<noteq> 0
   \<and> advect 3 (\<lambda>r c. real r + 2) 2 30 = 3
   \<and> advect 3 (\<lambda>r c. real r + 2) 1 30 = Tslab
   \<and> advect 3 (\<lambda>r c. real r + 2) 7 30 = 9
   \<and> (0::nat) < nsteps
   \<and> advect 0 u0_initial 1 30 = Tslab
   \<and> advect 0 u0_initial 1 30 = u0_initial 1 30"
  using advect_shift [of 3 "\<lambda>r c. real r + 2"] advect_shift [of 0 u0_initial]
  by (simp add: nsteps_def u0_initial_apply)

section \<open>Boundary cells\<close>

lemma grid_after_pinned: "pinned r c \<Longrightarrow> grid_after (Suc n) J r c = Tmantle"
  by (simp add: grid_after_Suc boundary_apply)

lemma grid_after_not_pinned:
  "\<not> pinned r c \<Longrightarrow>
   grid_after (Suc n) J r c = stencil (advect n (grid_after n J)) (buffer_after n J) r c"
  by (simp add: grid_after_Suc boundary_apply)

text \<open>
  Claim C4. After every step, every cell of column 0, of column \<open>nx - 1\<close> and of row
  \<open>ny - 1\<close> equals \<open>Tmantle\<close>, in \<open>u0\<close> and in \<open>u\<close>. Rows range over the first axis (length
  \<open>nx\<close>), columns over the second (length \<open>ny\<close>).
\<close>

theorem edges_at_Tmantle:
  "(\<forall>r < nx. grid_after (Suc n) J r 0 = Tmantle \<and> grid_after (Suc n) J r (nx - 1) = Tmantle)
   \<and> (\<forall>c < ny. grid_after (Suc n) J (ny - 1) c = Tmantle)
   \<and> buffer_after (Suc n) J = grid_after (Suc n) J"
proof -
  have "pinned r 0" and "pinned r (nx - 1)" if "r < nx" for r
    using that by (simp_all add: pinned_def nx_eq ny_eq)
  moreover have "pinned (ny - 1) c" if "c < ny" for c
    using that by (simp add: pinned_def nx_eq ny_eq)
  ultimately show ?thesis
    by (simp add: grid_after_pinned buffer_is_grid)
qed

theorem edges_at_Tmantle_witness:
  "(7::nat) < nx \<and> (7::nat) < ny
   \<and> grid_after (Suc 0) (\<lambda>r c. 0) 7 0 = Tmantle
   \<and> grid_after (Suc 0) (\<lambda>r c. 0) 7 (nx - 1) = Tmantle
   \<and> grid_after (Suc 0) (\<lambda>r c. 0) (ny - 1) 7 = Tmantle"
  using edges_at_Tmantle [of 0 "\<lambda>r c. 0"]
  by (simp add: nx_eq ny_eq)

section \<open>One iteration is the slab move followed by \<open>diffuser\<close>\<close>

text \<open>
  Claim C6. Every iteration is the slab move followed by \<open>diffuser\<close>: the contents of \<open>u0\<close>
  after iteration \<open>m\<close> are what \<open>diffuser\<close> returns when it is called on the store in which the
  array \<open>u0\<close> of the previous iteration has been moved (\<open>advect m\<close>); it is the boundary loops
  applied to the interior update of the moved array, written into the buffer \<open>u\<close>. So the
  interior update reads the array after the move.
\<close>

theorem step_is_advect_then_diffuser:
  "(let s = steps m J;
        s1 = modify (u0 s) (advect m) s;
        ((c, a), s2) = diffuser (u0 s1) (u s1) s1
    in grid_after (Suc m) J = heap s2 c \<and> buffer_after (Suc m) J = heap s2 a)
   \<and> grid_after (Suc m) J = boundary (stencil (advect m (grid_after m J)) (buffer_after m J))"
proof -
  have ok: "sim_ok (steps m J)" by (rule steps_ok)
  have "grid_after (Suc m) J = boundary (stencil (advect m (grid_after m J)) (buffer_after m J))"
    by (rule grid_after_Suc)
  moreover have "buffer_after (Suc m) J = boundary (stencil (advect m (grid_after m J)) (buffer_after m J))"
    by (rule buffer_after_Suc)
  ultimately show ?thesis
    using ok
    by (simp add: Let_def diffuser_def modify_def np_copy_def sim_ok_def grid_after_def buffer_after_def
          split: prod.splits)
qed

section \<open>Snapshots\<close>

lemma step_keeps_other:
  "a \<noteq> u0 s \<Longrightarrow> a \<noteq> u s \<Longrightarrow> a < nxt s \<Longrightarrow> heap (step m s) a = heap s a"
  by (simp add: step_def Let_def diffuser_def modify_def np_copy_def snapshot_def split: prod.splits)

text \<open>
  Claim C9. \<open>u.copy()\<close>, the snapshot handed to the renderer, does not change the simulator's
  state: two snapshots taken in a row are two new array objects, different from each other and
  from \<open>u0\<close> and \<open>u\<close>, both with the contents of \<open>u\<close>; the names \<open>u0\<close> and \<open>u\<close>, the list of
  pictures and every array that existed before keep their contents. The copies are
  independent of the simulator: a later iteration of the loop does not change them.
\<close>

theorem snapshot_twice:
  assumes "sim_ok s" and "snapshot s = (p1, s1)" and "snapshot s1 = (p2, s2)"
  shows "heap s2 p1 = heap s (u s) \<and> heap s2 p2 = heap s (u s)
       \<and> p1 \<noteq> p2 \<and> p1 \<noteq> u s \<and> p1 \<noteq> u0 s \<and> p2 \<noteq> u s \<and> p2 \<noteq> u0 s
       \<and> u s2 = u s \<and> u0 s2 = u0 s \<and> figs s2 = figs s
       \<and> (\<forall>a < nxt s. heap s2 a = heap s a)
       \<and> (\<forall>m. heap (step m s2) p1 = heap s (u s) \<and> heap (step m s2) p2 = heap s (u s))"
proof -
  from assms(2) have p1: "p1 = nxt s"
    and s1: "s1 = s\<lparr>heap := (heap s)(nxt s := heap s (u s)), nxt := Suc (nxt s)\<rparr>"
    by (auto simp: snapshot_def np_copy_def)
  from assms(3) have p2: "p2 = Suc (nxt s)"
    and s2: "s2 = s1\<lparr>heap := (heap s1)(nxt s1 := heap s1 (u s1)), nxt := Suc (nxt s1)\<rparr>"
    by (auto simp: snapshot_def np_copy_def s1)
  from assms(1) have lt: "u0 s < nxt s" "u s < nxt s"
    by (simp_all add: sim_ok_def)
  have now: "heap s2 p1 = heap s (u s)" "heap s2 p2 = heap s (u s)"
    using lt by (simp_all add: p1 p2 s1 s2)
  have names: "u s2 = u s" "u0 s2 = u0 s" "figs s2 = figs s" "nxt s2 = Suc (Suc (nxt s))"
    by (simp_all add: s1 s2)
  have old: "heap s2 a = heap s a" if "a < nxt s" for a
    using that by (simp add: s1 s2)
  have later: "heap (step m s2) p1 = heap s (u s)" "heap (step m s2) p2 = heap s (u s)" for m
    using lt by (simp_all add: step_keeps_other names p1 p2 now [unfolded p1 p2])
  show ?thesis
    using lt now names old later by (simp add: p1 p2)
qed

theorem snapshot_twice_witness:
  "sim_ok (initial (\<lambda>r c. 7))
   \<and> heap (snd (snapshot (snd (snapshot (initial (\<lambda>r c. 7)))))) 2 = (\<lambda>r c. 7)
   \<and> heap (snd (snapshot (snd (snapshot (initial (\<lambda>r c. 7)))))) 3 = (\<lambda>r c. 7)
   \<and> heap (snd (snapshot (snd (snapshot (initial (\<lambda>r c. 7)))))) 0 = u0_initial"
proof -
  let ?s = "initial (\<lambda>r c. 7)"
  have a: "snapshot ?s = (2, snd (snapshot ?s))"
    by (simp add: snapshot_def np_copy_def initial_def)
  have b: "snapshot (snd (snapshot ?s)) = (3, snd (snapshot (snd (snapshot ?s))))"
    by (simp add: snapshot_def np_copy_def initial_def)
  have u: "heap ?s (u ?s) = (\<lambda>r c. 7)" "heap ?s 0 = u0_initial" "(0::nat) < nxt ?s"
    by (simp_all add: initial_def)
  from snapshot_twice [OF initial_ok a b] u initial_ok [of "\<lambda>r c. 7"] show ?thesis
    by simp
qed

section \<open>The cells of the top row that \<open>diffuser\<close> never writes\<close>

lemma top_not_pinned: "25 \<le> c \<Longrightarrow> c \<le> 75 \<Longrightarrow> \<not> pinned 0 c"
  by (simp add: pinned_def nx_eq ny_eq)

lemma stencil_top: "stencil p b 0 c = b 0 c"
  by (simp add: stencil_def)

lemma stencil_row1:
  "1 \<le> c \<Longrightarrow> c \<le> ny - 2 \<Longrightarrow>
   stencil p b 1 c = p 1 c + K * dt * ((p 2 c - 2 * p 1 c + p 0 c) / dx2
                                     + (p 1 (c + 1) - 2 * p 1 c + p 1 (c - 1)) / dy2)"
  by (simp add: stencil_def nx_eq ny_eq numeral_2_eq_2)

lemma advect_top: "advect m g 0 c = g 0 c"
  by (simp add: advect_def place_slab_def sink_def)

lemma buffer_top: "25 \<le> c \<Longrightarrow> c \<le> 75 \<Longrightarrow> buffer_after n J 0 c = J 0 c"
  by (induction n) (simp_all add: buffer_after_0 buffer_after_Suc boundary_apply top_not_pinned stencil_top)

lemma grid_top: "25 \<le> c \<Longrightarrow> c \<le> 75 \<Longrightarrow> grid_after (Suc n) J 0 c = J 0 c"
  by (simp add: buffer_top buffer_is_grid [symmetric])

text \<open>
  Claim C10. \<open>diffuser\<close> never writes the cells of row 0 in the columns 25 to 75: neither
  the slice assignment of the interior nor the boundary loops touch them. So after every
  iteration these cells of \<open>u\<close>, and of the copy \<open>u0\<close>, hold what \<open>np.empty\<close> returned (\<open>J\<close>), and
  in the next iteration the interior update of row 1 reads them as the neighbour above.
\<close>

theorem top_row_cells_never_written:
  assumes "25 \<le> c" and "c \<le> 75"
  shows "stencil p b 0 c = b 0 c \<and> boundary b 0 c = b 0 c
       \<and> buffer_after (Suc n) J 0 c = J 0 c \<and> grid_after (Suc n) J 0 c = J 0 c
       \<and> (let g = advect (Suc n) (grid_after (Suc n) J)
          in grid_after (Suc (Suc n)) J 1 c =
               g 1 c + K * dt * ((g 2 c - 2 * g 1 c + J 0 c) / dx2
                                 + (g 1 (c + 1) - 2 * g 1 c + g 1 (c - 1)) / dy2))"
proof -
  have np: "\<not> pinned 1 c"
    using assms by (simp add: pinned_def nx_eq ny_eq)
  define g where "g = advect (Suc n) (grid_after (Suc n) J)"
  have g0: "g 0 c = J 0 c"
    using assms by (simp add: g_def advect_top grid_top)
  have "grid_after (Suc (Suc n)) J 1 c = stencil g (buffer_after (Suc n) J) 1 c"
    unfolding g_def by (rule grid_after_not_pinned [OF np])
  also have "\<dots> = g 1 c + K * dt * ((g 2 c - 2 * g 1 c + g 0 c) / dx2
                                 + (g 1 (c + 1) - 2 * g 1 c + g 1 (c - 1)) / dy2)"
    using assms by (intro stencil_row1) (simp_all add: ny_eq)
  finally have next_step: "grid_after (Suc (Suc n)) J 1 c =
      g 1 c + K * dt * ((g 2 c - 2 * g 1 c + J 0 c) / dx2
                        + (g 1 (c + 1) - 2 * g 1 c + g 1 (c - 1)) / dy2)"
    unfolding g0 .
  have "stencil p b 0 c = b 0 c" "boundary b 0 c = b 0 c"
    "buffer_after (Suc n) J 0 c = J 0 c" "grid_after (Suc n) J 0 c = J 0 c"
    using assms by (simp_all add: stencil_top boundary_apply top_not_pinned buffer_top grid_top)
  with next_step show ?thesis
    unfolding g_def by (simp add: Let_def)
qed

theorem top_row_cells_never_written_witness:
  "(25::nat) \<le> 75 \<and> (75::nat) \<le> 75
   \<and> buffer_after (Suc 0) (\<lambda>r c. 42) 0 75 = 42 \<and> grid_after (Suc 0) (\<lambda>r c. 42) 0 75 = 42"
  using top_row_cells_never_written [of 75 u0_initial "\<lambda>r c. 42" 0 "\<lambda>r c. 42"]
  by simp

section \<open>The top row outside the slab's columns\<close>

lemma top_row_outside:
  "c < 25 \<or> (75 < c \<and> c < nx) \<Longrightarrow> grid_after (Suc n) J 0 c = Tmantle"
  by (rule grid_after_pinned) (auto simp: pinned_def nx_eq ny_eq)

text \<open>
  Claim C5 says that after every step every cell of row 0 outside the columns 25 to 74 equals
  \<open>Tmantle\<close>, column 75 included. The boundary loop tests \<open>i > 75\<close>, so it pins the columns
  76 to 99 (and 0 to 24, lemma \<open>top_row_outside\<close>) and leaves column 75 out. With a buffer
  that \<open>np.empty\<close> returned full of zeros, the cell in row 0 and column 75 is 0 after every
  step, not \<open>Tmantle\<close>.
\<close>

theorem top_row_column_75_not_pinned:
  "grid_after (Suc n) (\<lambda>r c. 0) 0 75 = 0 \<and> grid_after (Suc n) (\<lambda>r c. 0) 0 75 \<noteq> Tmantle"
  by (simp add: grid_top Tmantle_def)

section \<open>The range of the temperatures\<close>

lemma stencil_avg:
  "1 \<le> i \<Longrightarrow> i < nx - 1 \<Longrightarrow> 1 \<le> j \<Longrightarrow> j < ny - 1 \<Longrightarrow>
   stencil p b i j = (p (i + 1) j + p (i - 1) j + p i (j + 1) + p i (j - 1)) / 4"
proof -
  assume "1 \<le> i" "i < nx - 1" "1 \<le> j" "j < ny - 1"
  then have "stencil p b i j = K * dt * ((p (i + 1) j - 2 * p i j + p (i - 1) j) / dx2
                          + (p i (j + 1) - 2 * p i j + p i (j - 1)) / dy2) + p i j"
    by (simp add: stencil_def)
  also have "\<dots> = (p (i + 1) j + p (i - 1) j + p i (j + 1) + p i (j - 1)) / 4"
    unfolding Kdt dx2_eq dy2_eq by (simp add: field_simps)
  finally show ?thesis .
qed

lemma in_range_iff:
  "in_range g \<longleftrightarrow> (\<forall>r c. r < nx \<and> c < ny \<longrightarrow> Tslab \<le> g r c \<and> g r c \<le> Tmantle)"
  by (auto simp: in_range_def)

lemma temperatures_ordered: "Tslab \<le> Tmantle"
  by (simp add: Tslab_def Tmantle_def)

lemma in_range_initial: "in_range u0_initial"
  by (simp add: in_range_iff u0_initial_apply temperatures_ordered)

lemma in_range_advect: "in_range g \<Longrightarrow> in_range (advect m g)"
  by (auto simp: in_range_iff advect_def place_slab_def sink_def temperatures_ordered)

lemma not_pinned_cases:
  assumes "r < nx" and "c < ny" and "\<not> pinned r c"
  shows "(1 \<le> r \<and> r < nx - 1 \<and> 1 \<le> c \<and> c < ny - 1) \<or> (r = 0 \<and> 25 \<le> c \<and> c \<le> 75)"
  using assms by (auto simp: pinned_def nx_eq ny_eq)

lemma avg_bounds:
  fixes a b c d :: real
  assumes "lo \<le> a \<and> a \<le> hi" "lo \<le> b \<and> b \<le> hi" "lo \<le> c \<and> c \<le> hi" "lo \<le> d \<and> d \<le> hi"
  shows "lo \<le> (a + b + c + d) / 4 \<and> (a + b + c + d) / 4 \<le> hi"
  using assms by simp

lemma in_range_stencil_interior:
  assumes "in_range p" and "1 \<le> i" "i < nx - 1" "1 \<le> j" "j < ny - 1"
  shows "Tslab \<le> stencil p b i j \<and> stencil p b i j \<le> Tmantle"
proof -
  have "i + 1 < nx" "i - 1 < nx" "i < nx" "j + 1 < ny" "j - 1 < ny" "j < ny"
    using assms(2-5) by simp_all
  with assms(1) have
    "Tslab \<le> p (i + 1) j \<and> p (i + 1) j \<le> Tmantle" "Tslab \<le> p (i - 1) j \<and> p (i - 1) j \<le> Tmantle"
    "Tslab \<le> p i (j + 1) \<and> p i (j + 1) \<le> Tmantle" "Tslab \<le> p i (j - 1) \<and> p i (j - 1) \<le> Tmantle"
    unfolding in_range_iff by blast+
  then show ?thesis
    unfolding stencil_avg [OF assms(2-5)] by (rule avg_bounds)
qed

text \<open>
  The temperatures stay between \<open>Tslab\<close> and \<open>Tmantle\<close> (in exact arithmetic) as soon as the
  never-written cells of the buffer, row 0 in the columns 25 to 75, do.
\<close>

lemma stale_in_range_iff:
  "stale_in_range J \<longleftrightarrow> (\<forall>c. 25 \<le> c \<and> c \<le> 75 \<longrightarrow> Tslab \<le> J 0 c \<and> J 0 c \<le> Tmantle)"
proof -
  have "c < 76 \<longleftrightarrow> c \<le> 75" for c :: nat by arith
  then show ?thesis
    by (simp only: stale_in_range_def set_upt atLeastLessThan_iff Ball_def)
qed

lemma range_invariant:
  assumes J: "stale_in_range J"
  shows "in_range (grid_after n J)"
proof (induction n)
  case 0
  show ?case by (simp add: grid_after_0 in_range_initial)
next
  case (Suc n)
  let ?p = "advect n (grid_after n J)"
  have p: "in_range ?p" by (rule in_range_advect [OF Suc.IH])
  have "Tslab \<le> grid_after (Suc n) J r c \<and> grid_after (Suc n) J r c \<le> Tmantle"
    if rc: "r < nx" "c < ny" for r c
  proof (cases "pinned r c")
    case True
    then show ?thesis by (simp add: grid_after_pinned temperatures_ordered)
  next
    case False
    from not_pinned_cases [OF rc False] show ?thesis
    proof
      assume "1 \<le> r \<and> r < nx - 1 \<and> 1 \<le> c \<and> c < ny - 1"
      then show ?thesis
        using in_range_stencil_interior [OF p, of r c "buffer_after n J"]
        by (simp add: grid_after_not_pinned [OF False])
    next
      assume top: "r = 0 \<and> 25 \<le> c \<and> c \<le> 75"
      then have "grid_after (Suc n) J r c = J 0 c" by (simp add: grid_top)
      with J top show ?thesis by (simp add: stale_in_range_iff)
    qed
  qed
  then show ?case unfolding in_range_iff by blast
qed

text \<open>
  Claim C3 says that every cell stays in \<open>[Tslab, Tmantle]\<close> at every step. The cells of row 0
  in the columns 25 to 75 are never written by \<open>diffuser\<close>, so they show what \<open>np.empty\<close>
  returned: with a buffer holding 5000 in those cells, the grid after every step holds 5000
  there, above \<open>Tmantle\<close>.
\<close>

theorem uninitialised_cells_out_of_range:
  "grid_after (Suc n) (\<lambda>r c. 5000) 0 50 = 5000 \<and> grid_after (Suc n) (\<lambda>r c. 5000) 0 75 = 5000
   \<and> Tmantle < grid_after (Suc n) (\<lambda>r c. 5000) 0 50"
  by (simp add: grid_top Tmantle_def)

section \<open>The first step\<close>

lemma advect_0_initial: "advect 0 u0_initial = u0_initial"
  by (rule ext, rule ext) (simp add: advect_def place_slab_def sink_def u0_initial_apply)

lemma first_step:
  "grid_after (Suc 0) J r c = (if pinned r c then Tmantle else stencil u0_initial J r c)"
  by (simp add: grid_after_Suc grid_after_0 buffer_after_0 advect_0_initial boundary_apply)

lemma first_step_interior:
  assumes "1 \<le> r" "r < nx - 1" "1 \<le> c" "c < ny - 1"
  shows "grid_after (Suc 0) J r c =
    (u0_initial (r + 1) c + u0_initial (r - 1) c + u0_initial r (c + 1) + u0_initial r (c - 1)) / 4"
proof -
  have "\<not> pinned r c"
    using assms by (simp add: pinned_def nx_eq ny_eq)
  then show ?thesis
    by (simp only: first_step if_False stencil_avg [OF assms])
qed

lemma first_step_row2:
  assumes "25 \<le> c" "c \<le> 74"
  shows "grid_after (Suc 0) J 2 c = 975"
proof -
  have "grid_after (Suc 0) J 2 c =
    (u0_initial (2 + 1) c + u0_initial (2 - 1) c + u0_initial 2 (c + 1) + u0_initial 2 (c - 1)) / 4"
    using assms by (intro first_step_interior) (simp_all add: nx_eq ny_eq)
  also have "\<dots> = 975"
    using assms by (simp add: u0_initial_apply Tslab_def Tmantle_def)
  finally show ?thesis .
qed

lemma first_step_row1:
  assumes "1 \<le> c" "c \<le> 98"
  shows "grid_after (Suc 0) J 1 c =
    (if 26 \<le> c \<and> c \<le> 73 then 650 else if 24 \<le> c \<and> c \<le> 75 then 975 else Tmantle)"
proof -
  have "grid_after (Suc 0) J 1 c =
    (u0_initial (1 + 1) c + u0_initial (1 - 1) c + u0_initial 1 (c + 1) + u0_initial 1 (c - 1)) / 4"
    using assms by (intro first_step_interior) (simp_all add: nx_eq ny_eq)
  also have "\<dots> = (if 26 \<le> c \<and> c \<le> 73 then 650 else if 24 \<le> c \<and> c \<le> 75 then 975 else Tmantle)"
    using assms by (auto simp: u0_initial_apply Tslab_def Tmantle_def)
  finally show ?thesis .
qed

text \<open>
  Claim C8 says that after exactly one step from the initial 100 by 100 grid (\<open>Tmantle = 1300\<close>,
  \<open>Tslab = 0\<close>) the cells of row 2 in the slab's columns equal \<open>Tslab\<close> and the interior cells
  of row 1 are strictly below \<open>Tmantle\<close>. Neither holds: the cell in row 2, column 30 is not
  \<open>Tslab\<close>, and the cell in row 1, column 10 is not below \<open>Tmantle\<close>.
\<close>

theorem first_step_scenario_counterexample:
  "\<not> (grid_after (Suc 0) (\<lambda>r c. 0) 2 30 = Tslab) \<and> \<not> (grid_after (Suc 0) (\<lambda>r c. 0) 1 10 < Tmantle)"
  using first_step_row2 [of 30 "\<lambda>r c. 0"] first_step_row1 [of 10 "\<lambda>r c. 0"]
  by (simp add: Tslab_def Tmantle_def)

text \<open>
  Claim C8, amended. The first iteration moves nothing (both slices of line 99 are empty for
  \<open>m = 0\<close>) and then diffuses once. After it, whatever the buffer held, the cells of row 2 in
  the columns 25 to 74 are 975, strictly between \<open>Tslab\<close> and \<open>Tmantle\<close>; the cells of row 1
  in the columns 24 to 75 are strictly below \<open>Tmantle\<close> (650 in the columns 26 to 73, 975 in the
  columns 24, 25, 74 and 75); the other interior cells of row 1, columns 1 to 23 and 76 to 98,
  still equal \<open>Tmantle\<close>.
\<close>

theorem first_step_scenario:
  "nx = 100 \<and> ny = 100 \<and> Tmantle = 1300 \<and> Tslab = 0
   \<and> (\<forall>c. 25 \<le> c \<and> c \<le> 74 \<longrightarrow>
         grid_after (Suc 0) J 2 c = 975 \<and> Tslab < grid_after (Suc 0) J 2 c \<and> grid_after (Suc 0) J 2 c < Tmantle)
   \<and> (\<forall>c. 24 \<le> c \<and> c \<le> 75 \<longrightarrow>
         grid_after (Suc 0) J 1 c = (if 26 \<le> c \<and> c \<le> 73 then 650 else 975)
         \<and> grid_after (Suc 0) J 1 c < Tmantle)
   \<and> (\<forall>c. (1 \<le> c \<and> c \<le> 23) \<or> (76 \<le> c \<and> c \<le> 98) \<longrightarrow> grid_after (Suc 0) J 1 c = Tmantle)"
proof -
  have "grid_after (Suc 0) J 2 c = 975 \<and> Tslab < grid_after (Suc 0) J 2 c \<and> grid_after (Suc 0) J 2 c < Tmantle"
    if "25 \<le> c \<and> c \<le> 74" for c
    using that first_step_row2 [of c J] by (simp add: Tslab_def Tmantle_def)
  moreover have "grid_after (Suc 0) J 1 c = (if 26 \<le> c \<and> c \<le> 73 then 650 else 975)
         \<and> grid_after (Suc 0) J 1 c < Tmantle"
    if "24 \<le> c \<and> c \<le> 75" for c
    using that first_step_row1 [of c J] by (simp add: Tmantle_def)
  moreover have "grid_after (Suc 0) J 1 c = Tmantle"
    if "(1 \<le> c \<and> c \<le> 23) \<or> (76 \<le> c \<and> c \<le> 98)" for c
    using that first_step_row1 [of c J] by auto
  ultimately show ?thesis
    by (simp add: nx_eq ny_eq Tslab_def Tmantle_def)
qed

theorem first_step_scenario_witness:
  "(25::nat) \<le> 30 \<and> (30::nat) \<le> 74 \<and> (24::nat) \<le> 75 \<and> (1::nat) \<le> 10 \<and> (10::nat) \<le> 23
   \<and> grid_after (Suc 0) (\<lambda>r c. 0) 2 30 = 975
   \<and> grid_after (Suc 0) (\<lambda>r c. 0) 1 30 = 650
   \<and> grid_after (Suc 0) (\<lambda>r c. 0) 1 75 = 975
   \<and> grid_after (Suc 0) (\<lambda>r c. 0) 1 10 = Tmantle"
  using first_step_scenario [of "\<lambda>r c. 0"]
  by simp

section \<open>Rows at the slab temperature\<close>

lemma advect_left: "c < 25 \<Longrightarrow> advect m g r c = g r c"
  by (simp add: advect_def place_slab_def sink_def)

lemma avg_positive:
  fixes a b c d :: real
  assumes "lo \<le> a" "lo \<le> b" "lo \<le> c" "lo < d"
  shows "lo < (a + b + c + d) / 4"
  using assms by simp

lemma stencil_above:
  assumes p: "in_range p" and i: "1 \<le> i" "i < nx - 1" "1 \<le> j" "j < ny - 1"
    and left: "Tslab < p i (j - 1)"
  shows "Tslab < stencil p b i j"
proof -
  have "i + 1 < nx" "i - 1 < nx" "i < nx" "j + 1 < ny" "j < ny"
    using i by simp_all
  with p have "Tslab \<le> p (i + 1) j" "Tslab \<le> p (i - 1) j" "Tslab \<le> p i (j + 1)"
    unfolding in_range_iff by blast+
  then show ?thesis
    unfolding stencil_avg [OF i] using left by (rule avg_positive)
qed

text \<open>To the left of the slab's columns every cell stays strictly above \<open>Tslab\<close>.\<close>

lemma left_above_Tslab:
  assumes J: "stale_in_range J"
  shows "r < nx \<Longrightarrow> c < 25 \<Longrightarrow> Tslab < grid_after n J r c"
proof (induction n arbitrary: r c)
  case 0
  then show ?case
    by (simp add: grid_after_0 u0_initial_apply Tslab_def Tmantle_def)
next
  case (Suc n)
  let ?p = "advect n (grid_after n J)"
  have p: "in_range ?p"
    by (rule in_range_advect [OF range_invariant [OF J]])
  show ?case
  proof (cases "pinned r c")
    case True
    then show ?thesis by (simp add: grid_after_pinned Tslab_def Tmantle_def)
  next
    case False
    have "c < ny" using Suc.prems(2) by (simp add: ny_eq)
    from not_pinned_cases [OF Suc.prems(1) this False] Suc.prems(2)
    have i: "1 \<le> r" "r < nx - 1" "1 \<le> c" "c < ny - 1" by auto
    have "c - 1 < 25" using Suc.prems(2) by simp
    then have "Tslab < ?p r (c - 1)"
      using Suc.IH [OF Suc.prems(1), of "c - 1"] by (simp add: advect_left)
    from stencil_above [OF p i this] show ?thesis
      by (simp add: grid_after_not_pinned [OF False])
  qed
qed

text \<open>Hence, once a step has run, no cell of column 25 below row 0 is at \<open>Tslab\<close>.\<close>

lemma column_25_above_Tslab:
  assumes J: "stale_in_range J"
    and r: "1 \<le> r" "r < nx"
  shows "Tslab < grid_after (Suc n) J r 25"
proof (cases "pinned r 25")
  case True
  then show ?thesis by (simp add: grid_after_pinned Tslab_def Tmantle_def)
next
  case False
  let ?p = "advect n (grid_after n J)"
  have p: "in_range ?p"
    by (rule in_range_advect [OF range_invariant [OF J]])
  have "(25::nat) < ny" by (simp add: ny_eq)
  from not_pinned_cases [OF r(2) this False] r(1)
  have i: "1 \<le> r" "r < nx - 1" "1 \<le> (25::nat)" "25 < ny - 1" by auto
  have "Tslab < ?p r (25 - 1)"
    using left_above_Tslab [OF J r(2), of 24 n] by (simp add: advect_left)
  from stencil_above [OF p i this] show ?thesis
    by (simp add: grid_after_not_pinned [OF False])
qed

lemma row_at_Tslab_iff:
  "row_at_Tslab g r \<longleftrightarrow> (\<forall>c. 25 \<le> c \<and> c \<le> 74 \<longrightarrow> g r c = Tslab)"
proof -
  have "c < 75 \<longleftrightarrow> c \<le> 74" for c :: nat by arith
  then show ?thesis
    by (simp only: row_at_Tslab_def set_upt atLeastLessThan_iff Ball_def)
qed


lemma row_at_Tslab_25: "row_at_Tslab g r \<Longrightarrow> g r 25 = Tslab"
  by (simp add: row_at_Tslab_iff)

lemma no_row_at_Tslab:
  assumes "stale_in_range J"
    and "1 \<le> r" "r < nx"
  shows "\<not> row_at_Tslab (grid_after (Suc n) J) r"
  using column_25_above_Tslab [OF assms, of n] row_at_Tslab_25 [of "grid_after (Suc n) J" r]
  by auto

lemma row_0_at_Tslab: "row_at_Tslab (grid_after (Suc n) J) 0 \<longleftrightarrow> row_at_Tslab J 0"
  by (simp add: row_at_Tslab_iff grid_top)

text \<open>Counting when only row 0 can qualify.\<close>

lemma count_only_row_0:
  assumes "\<And>r. 1 \<le> r \<Longrightarrow> r < nx \<Longrightarrow> \<not> P r"
  shows "length (filter P [0..<nx]) = (if P 0 then 1 else 0)"
proof -
  have "[0..<nx] = 0 # [1..<nx]"
    by (simp add: nx_eq upt_conv_Cons)
  moreover have "filter P [1..<nx] = []"
    using assms by (simp add: filter_empty_conv)
  ultimately show ?thesis by simp
qed

lemma rows_at_Tslab_after:
  assumes "stale_in_range J"
  shows "rows_at_Tslab (grid_after (Suc n) J) = (if row_at_Tslab J 0 then 1 else 0)"
  unfolding rows_at_Tslab_def
  by (subst count_only_row_0) (simp_all add: no_row_at_Tslab [OF assms] row_0_at_Tslab)

text \<open>
  So, when the never-written cells of the buffer hold values in \<open>[Tslab, Tmantle]\<close>, the
  number of rows at \<open>Tslab\<close> is the same after every completed step.
\<close>

lemma slab_rows_constant:
  assumes "stale_in_range J"
  shows "rows_at_Tslab (grid_after (Suc (Suc n)) J) = rows_at_Tslab (grid_after (Suc n) J)"
  by (simp add: rows_at_Tslab_after [OF assms])

section \<open>Rows at the slab temperature, with stale values in the buffer\<close>









subsection \<open>Counting rows\<close>







subsection \<open>A buffer that makes row 1 exactly \<open>Tslab\<close> after the second step\<close>




subsection \<open>A buffer far below the slab temperature\<close>









end
